theory Spec2Isabelle
  imports Main
begin

section \<open>Text rendering of numbers\<close>

text \<open>
  The script formats integers through Python's printf-style operator, which prints them
  in decimal. \<open>show_nat\<close> is the decimal numeral of a natural number and \<open>show_int\<close> is
  Python's \<open>str\<close> on an int (a minus sign in front of a negative value).
\<close>

definition digit_char :: "nat \<Rightarrow> char" where
  "digit_char d = ''0123456789'' ! d"

fun show_nat :: "nat \<Rightarrow> string" where
  "show_nat n = (if n < 10 then [digit_char n] else show_nat (n div 10) @ [digit_char (n mod 10)])"

declare show_nat.simps [simp del]

definition show_int :: "int \<Rightarrow> string" where
  "show_int i = (if i < 0 then CHR ''-'' # show_nat (nat (- i)) else show_nat (nat i))"

definition is_digit :: "char \<Rightarrow> bool" where
  "is_digit c = (c \<in> set ''0123456789'')"

definition digit_val :: "char \<Rightarrow> nat" where
  "digit_val c = of_char c - 48"

definition read_nat :: "string \<Rightarrow> nat" where
  "read_nat ds = foldl (\<lambda>acc c. 10 * acc + digit_val c) 0 ds"

section \<open>Python's printf-style formatting with a mapping\<close>

text \<open>
  \<open>fmt % record.__dict__\<close> is what \<open>logging.Formatter\<close> evaluates for the default
  \<open>%\<close> style. The model covers the part of the mini-language that the script's
  format string uses: literal text, \<open>%%\<close>, and conversions \<open>%(key)[flags][width]type\<close>
  with the flags \<open>-\<close> and \<open>0\<close>, a decimal minimum width, and the types \<open>d\<close> and \<open>s\<close>.
  A width is a minimum: Python pads a shorter value and prints a longer one in full.
  Anything outside this part yields \<open>Unsupported\<close>.
\<close>

datatype pyval = PStr string | PInt int

datatype fmt_error = KeyError string | TypeError | ValueError | Unsupported

datatype piece =
    Lit char
  | Conv (conv_key: string) (conv_minus: bool) (conv_zero: bool) (conv_width: nat) (conv_type: char)

definition is_flag :: "char \<Rightarrow> bool" where
  "is_flag c = (c = CHR ''-'' \<or> c = CHR ''0'')"

function parse_format :: "string \<Rightarrow> fmt_error + piece list" where
  "parse_format [] = Inr []"
| "parse_format (c # cs) =
    (if c \<noteq> CHR ''%'' then
       (case parse_format cs of Inl e \<Rightarrow> Inl e | Inr ps \<Rightarrow> Inr (Lit c # ps))
     else (case cs of
         [] \<Rightarrow> Inl ValueError
       | d # ds \<Rightarrow>
          if d = CHR ''%'' then
            (case parse_format ds of Inl e \<Rightarrow> Inl e | Inr ps \<Rightarrow> Inr (Lit CHR ''%'' # ps))
          else if d \<noteq> CHR ''('' then Inl Unsupported
          else if CHR '')'' \<notin> set ds then Inl ValueError
          else
            (let key = takeWhile (\<lambda>x. x \<noteq> CHR '')'') ds;
                 r1 = drop 1 (dropWhile (\<lambda>x. x \<noteq> CHR '')'') ds);
                 flags = takeWhile is_flag r1;
                 r2 = dropWhile is_flag r1;
                 width = takeWhile is_digit r2;
                 r3 = dropWhile is_digit r2
             in (case r3 of
                   [] \<Rightarrow> Inl ValueError
                 | t # r4 \<Rightarrow>
                     (case parse_format r4 of
                        Inl e \<Rightarrow> Inl e
                      | Inr ps \<Rightarrow>
                          Inr (Conv key (CHR ''-'' \<in> set flags) (CHR ''0'' \<in> set flags)
                                 (read_nat width) t # ps))))))"
  by pat_completeness auto

termination
proof (relation "measure length", goal_cases)
  case 1
  show ?case by simp
next
  case (2 c cs)
  then show ?case by simp
next
  case (3 c cs d ds)
  then show ?case by simp
next
  case (4 c cs d ds key r1 flags r2 width r3 t r4)
  have le: "length (dropWhile is_digit (dropWhile is_flag
          (drop 1 (dropWhile (\<lambda>x. x \<noteq> CHR '')'') ds)))) \<le> length ds"
    by (intro order_trans [OF length_dropWhile_le])
       (simp add: order_trans [OF diff_le_self length_dropWhile_le])
  from 4 have eq: "dropWhile is_digit (dropWhile is_flag
          (drop 1 (dropWhile (\<lambda>x. x \<noteq> CHR '')'') ds))) = t # r4"
    by simp
  from le have "Suc (length r4) \<le> length ds"
    unfolding eq by simp
  moreover from 4 have "cs = d # ds"
    by simp
  ultimately show ?case by simp
qed

declare parse_format.simps [simp del]

definition ljust :: "nat \<Rightarrow> string \<Rightarrow> string" where
  "ljust w s = s @ replicate (w - length s) CHR '' ''"

definition rjust :: "nat \<Rightarrow> string \<Rightarrow> string" where
  "rjust w s = replicate (w - length s) CHR '' '' @ s"

definition zfill_int :: "nat \<Rightarrow> int \<Rightarrow> string" where
  "zfill_int w i =
     (if i < 0 then CHR ''-'' # replicate (w - 1 - length (show_nat (nat (- i)))) CHR ''0''
                      @ show_nat (nat (- i))
      else replicate (w - length (show_nat (nat i))) CHR ''0'' @ show_nat (nat i))"

definition py_str :: "pyval \<Rightarrow> string" where
  "py_str v = (case v of PStr s \<Rightarrow> s | PInt i \<Rightarrow> show_int i)"

definition render_piece :: "(string \<rightharpoonup> pyval) \<Rightarrow> piece \<Rightarrow> fmt_error + string" where
  "render_piece d p =
     (case p of
        Lit c \<Rightarrow> Inr [c]
      | Conv key lj zp width t \<Rightarrow>
          (case d key of
             None \<Rightarrow> Inl (KeyError key)
           | Some v \<Rightarrow>
               if t = CHR ''s'' then
                 Inr (if lj then ljust width (py_str v) else rjust width (py_str v))
               else if t = CHR ''d'' then
                 (case v of
                    PStr _ \<Rightarrow> Inl TypeError
                  | PInt i \<Rightarrow>
                      Inr (if lj then ljust width (show_int i)
                           else if zp then zfill_int width i
                           else rjust width (show_int i)))
               else Inl Unsupported))"

fun render_pieces :: "(string \<rightharpoonup> pyval) \<Rightarrow> piece list \<Rightarrow> fmt_error + string" where
  "render_pieces d [] = Inr []"
| "render_pieces d (p # ps) =
     (case render_piece d p of
        Inl e \<Rightarrow> Inl e
      | Inr s \<Rightarrow> (case render_pieces d ps of Inl e \<Rightarrow> Inl e | Inr rest \<Rightarrow> Inr (s @ rest)))"

definition percent_format :: "string \<Rightarrow> (string \<rightharpoonup> pyval) \<Rightarrow> fmt_error + string" where
  "percent_format fmt d =
     (case parse_format fmt of Inl e \<Rightarrow> Inl e | Inr ps \<Rightarrow> render_pieces d ps)"

section \<open>Local time and \<open>time.strftime\<close>\<close>

text \<open>
  \<open>struct_time\<close> holds the fields of \<open>time.localtime()\<close> that the script's two
  \<open>strftime\<close> formats read; \<open>tm_gmtoff\<close> is the offset from UTC in seconds that is in
  force at that instant. \<open>strftime\<close> covers the directives \<open>%Y %m %d %H %M %S %z %%\<close>;
  any other directive is copied unchanged.
\<close>

record struct_time =
  tm_year :: nat
  tm_mon :: nat
  tm_mday :: nat
  tm_hour :: nat
  tm_min :: nat
  tm_sec :: nat
  tm_gmtoff :: int

definition two_digits :: "nat \<Rightarrow> string" where
  "two_digits n = (if n < 10 then CHR ''0'' # show_nat n else show_nat n)"

definition utc_offset_text :: "int \<Rightarrow> string" where
  "utc_offset_text off =
     (if off < 0 then CHR ''-'' else CHR ''+'')
       # two_digits (nat \<bar>off\<bar> div 3600) @ two_digits (nat \<bar>off\<bar> div 60 mod 60)"

definition strftime_directive :: "char \<Rightarrow> struct_time \<Rightarrow> string" where
  "strftime_directive d t =
     (if d = CHR ''Y'' then show_nat (tm_year t)
      else if d = CHR ''m'' then two_digits (tm_mon t)
      else if d = CHR ''d'' then two_digits (tm_mday t)
      else if d = CHR ''H'' then two_digits (tm_hour t)
      else if d = CHR ''M'' then two_digits (tm_min t)
      else if d = CHR ''S'' then two_digits (tm_sec t)
      else if d = CHR ''z'' then utc_offset_text (tm_gmtoff t)
      else if d = CHR ''%'' then ''%''
      else [CHR ''%'', d])"

fun strftime :: "string \<Rightarrow> struct_time \<Rightarrow> string" where
  "strftime [] t = []"
| "strftime [c] t = [c]"
| "strftime (c # d # cs) t =
     (if c = CHR ''%'' then strftime_directive d t @ strftime cs t
      else c # strftime (d # cs) t)"

section \<open>Levels, records and the formatter\<close>

definition NOTSET :: int where "NOTSET = 0"
definition DEBUG :: int where "DEBUG = 10"
definition INFO :: int where "INFO = 20"
definition WARNING :: int where "WARNING = 30"
definition ERROR :: int where "ERROR = 40"
definition CRITICAL :: int where "CRITICAL = 50"

definition getLevelName :: "int \<Rightarrow> string" where
  "getLevelName level =
     (if level = CRITICAL then ''CRITICAL''
      else if level = ERROR then ''ERROR''
      else if level = WARNING then ''WARNING''
      else if level = INFO then ''INFO''
      else if level = DEBUG then ''DEBUG''
      else if level = NOTSET then ''NOTSET''
      else ''Level '' @ show_int level)"

definition newline :: char where
  "newline = CHR 0x0A"

text \<open>
  A failure that is being handled when \<open>logger.exception\<close> is called: its type name, its
  description, and the lines of the stack trace when one is attached.
\<close>

datatype failure = Failure (exc_type: string) (exc_desc: string) (exc_trace: "string list option")

text \<open>
  A \<open>LogRecord\<close>, with the attributes the format string reads. \<open>created_local\<close> is
  \<open>time.localtime(record.created)\<close> and \<open>msecs\<close> the millisecond part of \<open>created\<close>.
  \<open>exc_info\<close> is \<open>None\<close> for a plain call; for \<open>logger.exception\<close> it is what
  \<open>sys.exc_info()\<close> returned: \<open>Some None\<close> stands for the triple of three \<open>None\<close>s that
  Python returns when no failure is being handled.
\<close>

record log_record =
  name :: string
  levelno :: int
  levelname :: string
  lineno :: int
  msg :: string
  created_local :: struct_time
  msecs :: nat
  thread :: int
  process :: int
  exc_info :: "failure option option"

record formatter =
  fmt :: string
  datefmt :: string

definition formatTime :: "formatter \<Rightarrow> log_record \<Rightarrow> string" where
  "formatTime f r = strftime (datefmt f) (created_local r)"

definition record_dict :: "formatter \<Rightarrow> log_record \<Rightarrow> (string \<rightharpoonup> pyval)" where
  "record_dict f r = map_of
     [(''name'', PStr (name r)),
      (''levelno'', PInt (levelno r)),
      (''levelname'', PStr (levelname r)),
      (''lineno'', PInt (lineno r)),
      (''msg'', PStr (msg r)),
      (''message'', PStr (msg r)),
      (''asctime'', PStr (formatTime f r)),
      (''msecs'', PInt (int (msecs r))),
      (''thread'', PInt (thread r)),
      (''process'', PInt (process r))]"

text \<open>
  Modelled from the spec: the failure text of the exception-style emission of section 4.4
  (the library code that builds it is not part of the repository). It is the stack trace,
  when one is attached, under the header of Python's tracebacks, followed by the type name
  and the description. With no failure being handled Python prints \<open>NoneType: None\<close>.
\<close>

definition formatException :: "failure option \<Rightarrow> string" where
  "formatException ei =
     (case ei of
        None \<Rightarrow> ''NoneType: None''
      | Some f \<Rightarrow>
          (case exc_trace f of
             None \<Rightarrow> []
           | Some frames \<Rightarrow>
               ''Traceback (most recent call last):'' @ [newline]
                 @ concat (map (\<lambda>l. l @ [newline]) frames))
          @ exc_type f @ (if exc_desc f = [] then [] else '': '' @ exc_desc f))"

text \<open>
  Modelled from the spec: the failure text is appended to the message text under a fixed
  delimiter (section 4.4), which is a newline: the failure text starts a line of its own.
\<close>

definition append_exc_text :: "string \<Rightarrow> failure option option \<Rightarrow> string" where
  "append_exc_text s ei =
     (case ei of
        None \<Rightarrow> s
      | Some e \<Rightarrow>
          if formatException e = [] then s
          else (if s \<noteq> [] \<and> last s = newline then s else s @ [newline]) @ formatException e)"

text \<open>
  Formatting a record: the format string is applied to the record's attributes with the
  printf-style operator, and the failure text, if any, is appended.
\<close>

definition Formatter_format :: "formatter \<Rightarrow> log_record \<Rightarrow> fmt_error + string" where
  "Formatter_format f r =
     (case percent_format (fmt f) (record_dict f r) of
        Inl e \<Rightarrow> Inl e
      | Inr s \<Rightarrow> Inr (append_exc_text s (exc_info r)))"

section \<open>Streams and the console handler\<close>

text \<open>
  The process has two console streams. Text written to a stream stays in its buffer until
  the stream is flushed, which moves it to the output. \<open>write_calls\<close> is the trace of
  every write made through a handler, and \<open>exc_state\<close> is the failure the running code is
  handling at the moment, if any (what \<open>sys.exc_info()\<close> reports).
\<close>

datatype stream = Stdout | Stderr

record world =
  stderr_buffer :: string
  stderr_output :: string
  stdout_buffer :: string
  stdout_output :: string
  write_calls :: "(stream \<times> string) list"
  exc_state :: "failure option"

definition stream_write :: "stream \<Rightarrow> string \<Rightarrow> world \<Rightarrow> world" where
  "stream_write s txt w =
     (case s of
        Stderr \<Rightarrow> w\<lparr>stderr_buffer := stderr_buffer w @ txt,
                     write_calls := write_calls w @ [(Stderr, txt)]\<rparr>
      | Stdout \<Rightarrow> w\<lparr>stdout_buffer := stdout_buffer w @ txt,
                     write_calls := write_calls w @ [(Stdout, txt)]\<rparr>)"

definition stream_flush :: "stream \<Rightarrow> world \<Rightarrow> world" where
  "stream_flush s w =
     (case s of
        Stderr \<Rightarrow> w\<lparr>stderr_output := stderr_output w @ stderr_buffer w, stderr_buffer := []\<rparr>
      | Stdout \<Rightarrow> w\<lparr>stdout_output := stdout_output w @ stdout_buffer w, stdout_buffer := []\<rparr>)"

record handler =
  h_level :: int
  h_formatter :: formatter
  h_stream :: stream

text \<open>
  Modelled from the spec: the console sink of section 4.3 (the class behind
  \<open>logging.StreamHandler()\<close> is not part of the repository). A handler created without a
  stream targets standard error; it starts with the lowest threshold and a formatter that
  prints the message alone.
\<close>

definition StreamHandler :: "stream option \<Rightarrow> handler" where
  "StreamHandler s =
     \<lparr>h_level = NOTSET,
      h_formatter = \<lparr>fmt = ''%(message)s'', datefmt = ''%Y-%m-%d %H:%M:%S''\<rparr>,
      h_stream = (case s of None \<Rightarrow> Stderr | Some s' \<Rightarrow> s')\<rparr>"

definition handler_setLevel :: "handler \<Rightarrow> int \<Rightarrow> handler" where
  "handler_setLevel h level = h\<lparr>h_level := level\<rparr>"

definition handler_setFormatter :: "handler \<Rightarrow> formatter \<Rightarrow> handler" where
  "handler_setFormatter h f = h\<lparr>h_formatter := f\<rparr>"

text \<open>
  Modelled from the spec: the write of the console sink (section 4.3) appends a newline to
  the rendered record, writes it to the handler's stream and flushes at once. A record that
  cannot be rendered is reported as a failure and nothing is written.
\<close>

definition handler_emit :: "handler \<Rightarrow> log_record \<Rightarrow> world \<Rightarrow> fmt_error list \<times> world" where
  "handler_emit h r w =
     (case Formatter_format (h_formatter h) r of
        Inl e \<Rightarrow> ([e], w)
      | Inr s \<Rightarrow> ([], stream_flush (h_stream h) (stream_write (h_stream h) (s @ [newline]) w)))"

section \<open>The logger\<close>

record logger =
  lg_name :: string
  lg_level :: int
  lg_handlers :: "handler list"

text \<open>
  Modelled from the spec: the logger of section 4.4 (\<open>logging.Logger\<close> is not part of the
  repository). A new logger has threshold \<open>DEBUG\<close> and no destination; \<open>setLevel\<close> sets
  the threshold and \<open>addHandler\<close> appends a destination.
\<close>

definition getLogger :: "string \<Rightarrow> logger" where
  "getLogger n = \<lparr>lg_name = n, lg_level = DEBUG, lg_handlers = []\<rparr>"

definition setLevel :: "logger \<Rightarrow> int \<Rightarrow> logger" where
  "setLevel lg level = lg\<lparr>lg_level := level\<rparr>"

definition addHandler :: "logger \<Rightarrow> handler \<Rightarrow> logger" where
  "addHandler lg h = lg\<lparr>lg_handlers := lg_handlers lg @ [h]\<rparr>"

text \<open>What a call site contributes to a record: the local time, process and thread.\<close>

record call_env =
  env_local :: struct_time
  env_msecs :: nat
  env_pid :: int
  env_tid :: int

definition makeRecord ::
  "logger \<Rightarrow> call_env \<Rightarrow> int \<Rightarrow> int \<Rightarrow> string \<Rightarrow> failure option option \<Rightarrow> log_record" where
  "makeRecord lg env level line text ei =
     \<lparr>name = lg_name lg, levelno = level, levelname = getLevelName level, lineno = line,
      msg = text, created_local = env_local env, msecs = env_msecs env,
      thread = env_tid env, process = env_pid env, exc_info = ei\<rparr>"

text \<open>
  Modelled from the spec: step 3 of \<open>emit\<close> in section 4.4. The record is handed to each
  destination in registration order; a failure at one destination is collected and the
  next ones are still served. A destination ignores a record below the threshold that
  \<open>handler.setLevel\<close> gave it.
\<close>

fun callHandlers :: "handler list \<Rightarrow> log_record \<Rightarrow> world \<Rightarrow> fmt_error list \<times> world" where
  "callHandlers [] r w = ([], w)"
| "callHandlers (h # hs) r w =
     (if levelno r < h_level h then callHandlers hs r w
      else (case handler_emit h r w of
              (errs, w') \<Rightarrow>
                (case callHandlers hs r w' of (errs', w'') \<Rightarrow> (errs @ errs', w''))))"

text \<open>
  Modelled from the spec: \<open>emit\<close> of section 4.4. Below the logger's threshold it returns
  at once, without building a record; otherwise it builds one record and serves the
  destinations. It returns the record built, if any, the failures collected, and the
  streams.
\<close>

definition emit ::
  "logger \<Rightarrow> call_env \<Rightarrow> int \<Rightarrow> int \<Rightarrow> string \<Rightarrow> failure option option \<Rightarrow> world
     \<Rightarrow> log_record option \<times> fmt_error list \<times> world" where
  "emit lg env level line text ei w =
     (if level < lg_level lg then (None, [], w)
      else (case callHandlers (lg_handlers lg) (makeRecord lg env level line text ei) w of
              (errs, w') \<Rightarrow> (Some (makeRecord lg env level line text ei), errs, w')))"

text \<open>
  Modelled from the spec: the convenience wrappers of section 4.4, one for each method
  the script calls on lines 29 to 34. Each delegates to \<open>emit\<close> with its level;
  \<open>logger.exception\<close> logs an error together with the failure being handled, which it
  reads and leaves in place, and the others attach nothing.
\<close>

datatype log_method = Debug | Info | Warning | Error | Critical | Exception

definition method_level :: "log_method \<Rightarrow> int" where
  "method_level m =
     (case m of Debug \<Rightarrow> DEBUG | Info \<Rightarrow> INFO | Warning \<Rightarrow> WARNING | Error \<Rightarrow> ERROR
      | Critical \<Rightarrow> CRITICAL | Exception \<Rightarrow> ERROR)"

definition logger_call ::
  "logger \<Rightarrow> call_env \<Rightarrow> log_method \<Rightarrow> int \<Rightarrow> string \<Rightarrow> world
     \<Rightarrow> log_record option \<times> fmt_error list \<times> world" where
  "logger_call lg env m line text w =
     emit lg env (method_level m) line text
       (if m = Exception then Some (exc_state w) else None) w"

section \<open>The script\<close>

text \<open>
  Lines 5 to 26 build the configuration. \<open>time.strftime("%z")\<close> on line 12 is evaluated
  when the format string is built, on the local time of that moment (\<open>import_local\<close>), and
  its text becomes part of the format string.
\<close>

definition LOGGER_NAME :: string where
  "LOGGER_NAME = ''LoggerName''"

definition script_formatter :: "struct_time \<Rightarrow> formatter" where
  "script_formatter import_local =
     \<lparr>fmt = ''%(asctime)s.%(msecs)03d'' @ strftime ''%z'' import_local @ '' ''
              @ ''| %(process)-8d ''
              @ ''| %(thread)-16d ''
              @ ''| %(levelname)-8s ''
              @ ''| %(lineno)-4d ''
              @ ''| %(message)s'',
      datefmt = ''%Y-%m-%dT%H:%M:%S''\<rparr>"

definition script_handler :: "struct_time \<Rightarrow> handler" where
  "script_handler import_local =
     handler_setFormatter (handler_setLevel (StreamHandler None) DEBUG)
       (script_formatter import_local)"

definition script_logger :: "struct_time \<Rightarrow> logger" where
  "script_logger import_local =
     addHandler (setLevel (getLogger LOGGER_NAME) DEBUG) (script_handler import_local)"

text \<open>Lines 29 to 34: the method, the line of the call and the message text.\<close>

definition sample_calls :: "(log_method \<times> int \<times> string) list" where
  "sample_calls =
     [(Debug, 29, ''Debug message.''),
      (Info, 30, ''Info message.''),
      (Warning, 31, ''Warning message.''),
      (Error, 32, ''Error message.''),
      (Critical, 33, ''Warning message.''),
      (Exception, 34, ''Exception message.'')]"

text \<open>
  Running calls in order; \<open>envs i\<close> is the time, process and thread seen by the call with
  index \<open>i\<close>. The result lists the records built, the failures reported and the final
  state of the streams.
\<close>

fun run_calls ::
  "logger \<Rightarrow> (nat \<Rightarrow> call_env) \<Rightarrow> nat \<Rightarrow> (log_method \<times> int \<times> string) list \<Rightarrow> world
     \<Rightarrow> log_record list \<times> fmt_error list \<times> world" where
  "run_calls lg envs i [] w = ([], [], w)"
| "run_calls lg envs i ((m, line, text) # cs) w =
     (case logger_call lg (envs i) m line text w of
        (made, errs, w') \<Rightarrow>
          (case run_calls lg envs (Suc i) cs w' of
             (rs, errs', w'') \<Rightarrow>
               ((case made of None \<Rightarrow> [] | Some r \<Rightarrow> [r]) @ rs, errs @ errs', w'')))"

definition run_script :: "struct_time \<Rightarrow> (nat \<Rightarrow> call_env) \<Rightarrow> world \<Rightarrow> log_record list \<times> fmt_error list \<times> world" where
  "run_script import_local envs w = run_calls (script_logger import_local) envs 0 sample_calls w"

section \<open>Notions of the specification\<close>

text \<open>
  The specification describes every column as padded or truncated to a fixed width.
  \<open>fit\<close> does exactly that, and \<open>spec_line\<close> is the line the specification describes
  for a record without failure text: the timestamp, then the process id in 8 columns,
  the thread id in 16, the level name in 8 and the line number in 4, each followed by
  the separator.
\<close>

definition fit :: "nat \<Rightarrow> string \<Rightarrow> string" where
  "fit w s = take w (ljust w s)"

definition spec_line :: "struct_time \<Rightarrow> log_record \<Rightarrow> string" where
  "spec_line import_local r =
     formatTime (script_formatter import_local) r @ ''.'' @ zfill_int 3 (int (msecs r))
       @ strftime ''%z'' import_local
       @ '' | '' @ fit 8 (show_int (process r))
       @ '' | '' @ fit 16 (show_int (thread r))
       @ '' | '' @ fit 8 (levelname r)
       @ '' | '' @ fit 4 (show_int (lineno r))
       @ '' | '' @ msg r"



text \<open>A local time of the calendar with a year of four digits.\<close>

definition valid_time :: "struct_time \<Rightarrow> bool" where
  "valid_time t =
     (1000 \<le> tm_year t \<and> tm_year t \<le> 9999 \<and> 1 \<le> tm_mon t \<and> tm_mon t \<le> 12
      \<and> 1 \<le> tm_mday t \<and> tm_mday t \<le> 31 \<and> tm_hour t \<le> 23 \<and> tm_min t \<le> 59
      \<and> tm_sec t \<le> 61 \<and> \<bar>tm_gmtoff t\<bar> < 86400)"

text \<open>
  Reading the fixed-width columns back: the process id is in columns 31 to 38, the thread
  id in 42 to 57, the level name in 61 to 68 and the line number in 72 to 75; the padding
  on the right is dropped and the numbers are read in decimal.
\<close>

definition rstrip :: "string \<Rightarrow> string" where
  "rstrip s = rev (dropWhile (\<lambda>c. c = CHR '' '') (rev s))"

definition read_int :: "string \<Rightarrow> int option" where
  "read_int s =
     (case s of
        [] \<Rightarrow> None
      | c # cs \<Rightarrow>
          if c = CHR ''-'' then
            (if cs \<noteq> [] \<and> list_all is_digit cs then Some (- int (read_nat cs)) else None)
          else if list_all is_digit s then Some (int (read_nat s))
          else None)"

definition parse_fixed_width :: "string \<Rightarrow> (int \<times> int \<times> string \<times> int) option" where
  "parse_fixed_width l =
     (case read_int (rstrip (take 8 (drop 31 l))) of
        None \<Rightarrow> None
      | Some p \<Rightarrow>
          (case read_int (rstrip (take 16 (drop 42 l))) of
             None \<Rightarrow> None
           | Some t \<Rightarrow>
               (case read_int (rstrip (take 4 (drop 72 l))) of
                  None \<Rightarrow> None
                | Some n \<Rightarrow> Some (p, t, rstrip (take 8 (drop 61 l)), n))))"

definition fits_columns :: "log_record \<Rightarrow> bool" where
  "fits_columns r =
     (length (show_int (process r)) \<le> 8 \<and> length (show_int (thread r)) \<le> 16
      \<and> length (levelname r) \<le> 8 \<and> rstrip (levelname r) = levelname r
      \<and> length (show_int (lineno r)) \<le> 4)"

text \<open>Concrete values for the examples.\<close>

definition example_time :: struct_time where
  "example_time =
     \<lparr>tm_year = 2026, tm_mon = 11, tm_mday = 4, tm_hour = 9, tm_min = 5, tm_sec = 7,
      tm_gmtoff = 3600\<rparr>"

definition example_env :: call_env where
  "example_env =
     \<lparr>env_local = example_time, env_msecs = 42, env_pid = 4711, env_tid = 140234567890123\<rparr>"

definition example_world :: world where
  "example_world =
     \<lparr>stderr_buffer = [], stderr_output = [], stdout_buffer = [], stdout_output = [],
      write_calls = [], exc_state = None\<rparr>"

definition example_envs :: "nat \<Rightarrow> call_env" where
  "example_envs i = example_env\<lparr>env_msecs := 42 + i\<rparr>"

section \<open>The script's format string, parsed and rendered\<close>

lemma digit_char_is_digit: "d < 10 \<Longrightarrow> is_digit (digit_char d)"
  unfolding is_digit_def digit_char_def
  by (rule nth_mem) simp

lemma show_nat_digits: "c \<in> set (show_nat n) \<Longrightarrow> is_digit c"
proof (induction n rule: show_nat.induct)
  case (1 n)
  show ?case
  proof (cases "n < 10")
    case True
    with 1 show ?thesis
      by (simp add: show_nat.simps [of n] digit_char_is_digit)
  next
    case False
    with 1 show ?thesis
      by (auto simp add: show_nat.simps [of n] digit_char_is_digit)
  qed
qed

lemma is_digit_not_percent: "is_digit c \<Longrightarrow> c \<noteq> CHR ''%''"
  by (auto simp add: is_digit_def)

lemma utc_offset_text_no_percent: "CHR ''%'' \<notin> set (utc_offset_text off)"
  using show_nat_digits is_digit_not_percent
  by (auto simp add: utc_offset_text_def two_digits_def)

lemma parse_format_literal:
  "CHR ''%'' \<notin> set xs \<Longrightarrow>
     parse_format (xs @ ys) =
       (case parse_format ys of Inl e \<Rightarrow> Inl e | Inr ps \<Rightarrow> Inr (map Lit xs @ ps))"
  by (induction xs) (auto simp add: parse_format.simps split: sum.splits)

lemma strftime_z: "strftime ''%z'' t = utc_offset_text (tm_gmtoff t)"
  by (simp add: strftime_directive_def)

lemma parse_tail:
  "parse_format '' | %(process)-8d | %(thread)-16d | %(levelname)-8s | %(lineno)-4d | %(message)s'' =
     Inr (map Lit '' | '' @ [Conv ''process'' True False 8 CHR ''d''] @ map Lit '' | '' @
          [Conv ''thread'' True False 16 CHR ''d''] @ map Lit '' | '' @
          [Conv ''levelname'' True False 8 CHR ''s''] @ map Lit '' | '' @
          [Conv ''lineno'' True False 4 CHR ''d''] @ map Lit '' | '' @
          [Conv ''message'' False False 0 CHR ''s''])"
  by (simp add: parse_format.simps is_flag_def is_digit_def read_nat_def digit_val_def)

lemma parse_script_fmt:
  "parse_format (fmt (script_formatter il)) =
     Inr ([Conv ''asctime'' False False 0 CHR ''s'', Lit CHR ''.'',
           Conv ''msecs'' False True 3 CHR ''d''] @ map Lit (utc_offset_text (tm_gmtoff il)) @
          map Lit '' | '' @ [Conv ''process'' True False 8 CHR ''d''] @ map Lit '' | '' @
          [Conv ''thread'' True False 16 CHR ''d''] @ map Lit '' | '' @
          [Conv ''levelname'' True False 8 CHR ''s''] @ map Lit '' | '' @
          [Conv ''lineno'' True False 4 CHR ''d''] @ map Lit '' | '' @
          [Conv ''message'' False False 0 CHR ''s''])"
proof -
  have tail: "parse_format (utc_offset_text (tm_gmtoff il) @
       '' | %(process)-8d | %(thread)-16d | %(levelname)-8s | %(lineno)-4d | %(message)s'') =
     Inr (map Lit (utc_offset_text (tm_gmtoff il)) @
          map Lit '' | '' @ [Conv ''process'' True False 8 CHR ''d''] @ map Lit '' | '' @
          [Conv ''thread'' True False 16 CHR ''d''] @ map Lit '' | '' @
          [Conv ''levelname'' True False 8 CHR ''s''] @ map Lit '' | '' @
          [Conv ''lineno'' True False 4 CHR ''d''] @ map Lit '' | '' @
          [Conv ''message'' False False 0 CHR ''s''])"
    by (simp only: parse_format_literal [OF utc_offset_text_no_percent] parse_tail sum.case)
  show ?thesis
    unfolding script_formatter_def
    by (simp add: strftime_directive_def Let_def parse_format.simps is_flag_def is_digit_def read_nat_def
        digit_val_def tail del: append_assoc)
qed


lemma render_pieces_literal:
  "render_pieces d (map Lit xs @ ps) =
     (case render_pieces d ps of Inl e \<Rightarrow> Inl e | Inr rest \<Rightarrow> Inr (xs @ rest))"
  by (induction xs) (auto simp add: render_piece_def split: sum.splits)

lemma rjust_zero: "rjust 0 s = s"
  by (simp add: rjust_def)

lemma Formatter_format_script:
  "Formatter_format (script_formatter il) r =
     Inr (append_exc_text
            (formatTime (script_formatter il) r @ ''.'' @ zfill_int 3 (int (msecs r))
               @ utc_offset_text (tm_gmtoff il)
               @ '' | '' @ ljust 8 (show_int (process r))
               @ '' | '' @ ljust 16 (show_int (thread r))
               @ '' | '' @ ljust 8 (levelname r)
               @ '' | '' @ ljust 4 (show_int (lineno r))
               @ '' | '' @ msg r)
            (exc_info r))"
  unfolding Formatter_format_def percent_format_def parse_script_fmt
  by (simp add: render_pieces_literal render_piece_def record_dict_def rjust_zero py_str_def)

section \<open>Padding and the example values\<close>

lemma levels_distinct:
  "DEBUG \<noteq> INFO" "DEBUG \<noteq> WARNING" "DEBUG \<noteq> ERROR" "DEBUG \<noteq> CRITICAL"
  "INFO \<noteq> DEBUG" "INFO \<noteq> WARNING" "INFO \<noteq> ERROR" "INFO \<noteq> CRITICAL"
  "WARNING \<noteq> DEBUG" "WARNING \<noteq> INFO" "WARNING \<noteq> ERROR" "WARNING \<noteq> CRITICAL"
  "ERROR \<noteq> DEBUG" "ERROR \<noteq> INFO" "ERROR \<noteq> WARNING" "ERROR \<noteq> CRITICAL"
  "CRITICAL \<noteq> DEBUG" "CRITICAL \<noteq> INFO" "CRITICAL \<noteq> WARNING" "CRITICAL \<noteq> ERROR"
  by (simp_all add: DEBUG_def INFO_def WARNING_def ERROR_def CRITICAL_def)

lemma length_ljust: "length (ljust w s) = max w (length s)"
  by (simp add: ljust_def)

lemma take_ljust: "take (length s) (ljust w s) = s"
  by (simp add: ljust_def)

lemma drop_ljust: "drop (length s) (ljust w s) = replicate (w - length s) CHR '' ''"
  by (simp add: ljust_def)

lemma replicate_numeral: "replicate (numeral k) x = x # replicate (pred_numeral k) x"
  by (simp add: numeral_eq_Suc)

lemma show_nat_examples:
  "show_nat 12345 = ''12345''" "show_nat 4711 = ''4711''" "show_nat 42 = ''42''"
  "show_nat 2026 = ''2026''" "show_nat 11 = ''11''" "show_nat 4 = ''4''" "show_nat 9 = ''9''"
  "show_nat 5 = ''5''" "show_nat 7 = ''7''" "show_nat 0 = ''0''" "show_nat (Suc 0) = ''1''"
  "show_nat 140234567890123 = ''140234567890123''"
  by (simp_all add: show_nat.simps [of "numeral k" for k] show_nat.simps [of 0]
      show_nat.simps [of "Suc 0"] digit_char_def)

lemma example_timestamp:
  "formatTime (script_formatter example_time) (makeRecord lg example_env level line text ei)
     = ''2026-11-04T09:05:07''"
  "zfill_int 3 (int (msecs (makeRecord lg example_env level line text ei))) = ''042''"
  "utc_offset_text (tm_gmtoff example_time) = ''+0100''"
  by (simp_all add: formatTime_def script_formatter_def makeRecord_def example_env_def
      example_time_def strftime_directive_def two_digits_def zfill_int_def utc_offset_text_def
      show_nat_examples)

section \<open>The fixed-width columns (C3)\<close>

text \<open>
  C3, as the specification states it, says that every column is padded or truncated to its
  width, so that every rendered line is \<open>spec_line\<close>. A call on line 12345 of a file shows
  that the code does not truncate: the line number is printed with its five digits and the
  message starts one column later than in \<open>spec_line\<close>.
\<close>

theorem fixed_width_counterexample:
  "Formatter_format (script_formatter example_time)
     (makeRecord (script_logger example_time) example_env INFO 12345 ''x'' None)
   = Inr ''2026-11-04T09:05:07.042+0100 | 4711     | 140234567890123  | INFO     | 12345 | x''
   \<and> spec_line example_time
     (makeRecord (script_logger example_time) example_env INFO 12345 ''x'' None)
   = ''2026-11-04T09:05:07.042+0100 | 4711     | 140234567890123  | INFO     | 1234 | x''
   \<and> Formatter_format (script_formatter example_time)
     (makeRecord (script_logger example_time) example_env INFO 12345 ''x'' None)
   \<noteq> Inr (spec_line example_time
        (makeRecord (script_logger example_time) example_env INFO 12345 ''x'' None))"
  unfolding Formatter_format_script spec_line_def strftime_z example_timestamp
  by (simp add: makeRecord_def example_env_def append_exc_text_def fit_def ljust_def
      replicate_numeral show_int_def show_nat_examples getLevelName_def INFO_def CRITICAL_def ERROR_def
      WARNING_def)

text \<open>
  C3, amended: the process id, thread id, level name and line number are left-aligned and
  padded with blanks to at least 8, 16, 8 and 4 characters. The width is a minimum: the
  rendered column holds the whole value, followed by as many blanks as are missing to
  reach the width, so a longer value is printed in full and widens its column.
\<close>

theorem columns_padded_never_truncated:
  "Formatter_format (script_formatter il) r =
     Inr (append_exc_text
            (formatTime (script_formatter il) r @ ''.'' @ zfill_int 3 (int (msecs r))
               @ strftime ''%z'' il
               @ '' | '' @ ljust 8 (show_int (process r))
               @ '' | '' @ ljust 16 (show_int (thread r))
               @ '' | '' @ ljust 8 (levelname r)
               @ '' | '' @ ljust 4 (show_int (lineno r))
               @ '' | '' @ msg r)
            (exc_info r))
   \<and> length (ljust w s) = max w (length s)
   \<and> take (length s) (ljust w s) = s
   \<and> drop (length s) (ljust w s) = replicate (w - length s) CHR '' ''"
  unfolding strftime_z
  by (simp only: Formatter_format_script length_ljust take_ljust drop_ljust simp_thms)

section \<open>Digits of bounded numbers\<close>



lemma show_nat_lt10: "n < 10 \<Longrightarrow> show_nat n = [digit_char (n mod 10)]"
  by (simp add: show_nat.simps [of n])

lemma show_nat_step: "10 \<le> n \<Longrightarrow> show_nat n = show_nat (n div 10) @ [digit_char (n mod 10)]"
  by (simp add: show_nat.simps [of n])

lemma show_nat_2:
  assumes "10 \<le> n" "n < 100"
  shows "show_nat n = [digit_char (n div 10 mod 10), digit_char (n mod 10)]"
proof -
  from assms have "n div 10 < 10" by arith
  with assms show ?thesis
    by (simp add: show_nat_step show_nat_lt10)
qed

lemma show_nat_3:
  assumes "100 \<le> n" "n < 1000"
  shows "show_nat n = [digit_char (n div 100 mod 10), digit_char (n div 10 mod 10), digit_char (n mod 10)]"
proof -
  from assms have "10 \<le> n div 10" "n div 10 < 100" "10 \<le> n" by arith+
  moreover have "n div 10 div 10 = n div 100"
    by (simp add: div_mult2_eq [symmetric])
  ultimately show ?thesis
    by (simp add: show_nat_step [of n] show_nat_2)
qed

lemma show_nat_4:
  assumes "1000 \<le> n" "n \<le> 9999"
  shows "show_nat n = [digit_char (n div 1000 mod 10), digit_char (n div 100 mod 10),
                       digit_char (n div 10 mod 10), digit_char (n mod 10)]"
proof -
  from assms have "100 \<le> n div 10" "n div 10 < 1000" "10 \<le> n" by arith+
  moreover have "n div 10 div 100 = n div 1000" "n div 10 div 10 = n div 100"
    by (simp_all add: div_mult2_eq [symmetric])
  ultimately show ?thesis
    by (simp add: show_nat_step [of n] show_nat_3)
qed

lemma digit_char_0: "digit_char 0 = CHR ''0''"
  by (simp add: digit_char_def)

lemma two_digits_eq:
  assumes "n < 100"
  shows "two_digits n = [digit_char (n div 10 mod 10), digit_char (n mod 10)]"
proof (cases "n < 10")
  case True
  then show ?thesis
    by (simp add: two_digits_def show_nat_lt10 digit_char_0)
next
  case False
  with assms show ?thesis
    by (simp add: two_digits_def show_nat_2)
qed

lemma zfill_int_3:
  assumes "n < 1000"
  shows "zfill_int 3 (int n) =
           [digit_char (n div 100 mod 10), digit_char (n div 10 mod 10), digit_char (n mod 10)]"
proof -
  consider "n < 10" | "10 \<le> n" "n < 100" | "100 \<le> n" using assms by arith
  then show ?thesis
  proof cases
    case 1
    then show ?thesis
      by (simp add: zfill_int_def show_nat_lt10 digit_char_0 replicate_numeral)
  next
    case 2
    then show ?thesis
      by (simp add: zfill_int_def show_nat_2 digit_char_0)
  next
    case 3
    with assms show ?thesis
      by (simp add: zfill_int_def show_nat_3)
  qed
qed

lemma utc_offset_text_eq:
  assumes "\<bar>off\<bar> < 86400"
  shows "utc_offset_text off =
           [if off < 0 then CHR ''-'' else CHR ''+'',
            digit_char (nat \<bar>off\<bar> div 3600 div 10 mod 10), digit_char (nat \<bar>off\<bar> div 3600 mod 10),
            digit_char (nat \<bar>off\<bar> div 60 mod 60 div 10 mod 10),
            digit_char (nat \<bar>off\<bar> div 60 mod 60 mod 10)]"
proof -
  from assms have "nat \<bar>off\<bar> div 3600 < 100" by arith
  moreover have "nat \<bar>off\<bar> div 60 mod 60 < 100" by arith
  ultimately show ?thesis
    by (simp add: utc_offset_text_def two_digits_eq)
qed

lemma formatTime_script:
  "formatTime (script_formatter il) r =
     show_nat (tm_year (created_local r)) @ ''-'' @ two_digits (tm_mon (created_local r)) @ ''-''
       @ two_digits (tm_mday (created_local r)) @ ''T'' @ two_digits (tm_hour (created_local r))
       @ '':'' @ two_digits (tm_min (created_local r)) @ '':''
       @ two_digits (tm_sec (created_local r))"
  by (simp add: formatTime_def script_formatter_def strftime_directive_def)

lemma append_exc_text_prefix: "\<exists>suffix. append_exc_text s ei = s @ suffix"
  by (cases ei) (auto simp add: append_exc_text_def)


section \<open>Reading numbers and columns back\<close>

lemma digit_val_digit_char: "d < 10 \<Longrightarrow> digit_val (digit_char d) = d"
  by (auto simp add: numeral_eq_Suc less_Suc_eq digit_val_def digit_char_def)

lemma read_nat_snoc: "read_nat (ds @ [c]) = 10 * read_nat ds + digit_val c"
  by (simp add: read_nat_def)

lemma read_nat_show_nat: "read_nat (show_nat n) = n"
proof (induction n rule: show_nat.induct)
  case (1 n)
  show ?case
  proof (cases "n < 10")
    case True
    then show ?thesis
      by (simp add: show_nat.simps [of n] read_nat_def digit_val_digit_char)
  next
    case False
    with 1 show ?thesis
      by (simp add: show_nat.simps [of n] read_nat_snoc digit_val_digit_char)
  qed
qed

lemma show_nat_all_digits: "list_all is_digit (show_nat n)"
  by (simp add: list_all_iff show_nat_digits)

lemma show_nat_last: "\<exists>ds. show_nat n = ds @ [digit_char (n mod 10)]"
  by (cases "n < 10") (simp_all add: show_nat.simps [of n])

lemma show_nat_not_Nil: "show_nat n \<noteq> []"
  using show_nat_last [of n] by auto

lemma is_digit_not_minus: "is_digit c \<Longrightarrow> c \<noteq> CHR ''-''"
  by (auto simp add: is_digit_def)

lemma is_digit_not_blank: "is_digit c \<Longrightarrow> c \<noteq> CHR '' ''"
  by (auto simp add: is_digit_def)

lemma read_int_show_int: "read_int (show_int i) = Some i"
proof (cases "i < 0")
  case True
  then show ?thesis
    by (simp add: read_int_def show_int_def show_nat_not_Nil show_nat_all_digits
        read_nat_show_nat)
next
  case False
  obtain c cs where cs: "show_nat (nat i) = c # cs"
    using show_nat_not_Nil [of "nat i"] by (cases "show_nat (nat i)") auto
  have "is_digit c"
    using show_nat_digits [of c "nat i"] cs by simp
  then have "c \<noteq> CHR ''-''"
    by (rule is_digit_not_minus)
  moreover have "list_all is_digit (c # cs)"
    using show_nat_all_digits [of "nat i"] cs by simp
  moreover have "read_nat (c # cs) = nat i"
    using read_nat_show_nat [of "nat i"] cs by simp
  ultimately show ?thesis
    using False by (simp add: read_int_def show_int_def cs)
qed

lemma rstrip_snoc: "c \<noteq> CHR '' '' \<Longrightarrow> rstrip (s @ [c]) = s @ [c]"
  by (simp add: rstrip_def)

lemma rstrip_show_int: "rstrip (show_int i) = show_int i"
proof -
  obtain ds c where "show_int i = ds @ [c]" "is_digit c"
  proof (cases "i < 0")
    case True
    obtain ds where "show_nat (nat (- i)) = ds @ [digit_char (nat (- i) mod 10)]"
      using show_nat_last by blast
    with True have "show_int i = (CHR ''-'' # ds) @ [digit_char (nat (- i) mod 10)]"
      by (simp add: show_int_def)
    then show ?thesis
      using that digit_char_is_digit [of "nat (- i) mod 10"] by simp
  next
    case False
    obtain ds where "show_nat (nat i) = ds @ [digit_char (nat i mod 10)]"
      using show_nat_last by blast
    with False have "show_int i = ds @ [digit_char (nat i mod 10)]"
      by (simp add: show_int_def)
    then show ?thesis
      using that digit_char_is_digit [of "nat i mod 10"] by simp
  qed
  then show ?thesis
    by (simp add: rstrip_snoc is_digit_not_blank)
qed

lemma dropWhile_replicate:
  "dropWhile (\<lambda>c. c = x) (replicate n x @ ys) = dropWhile (\<lambda>c. c = x) ys"
  by (induction n) simp_all

lemma rstrip_ljust: "rstrip (ljust w s) = rstrip s"
  by (simp add: rstrip_def ljust_def dropWhile_replicate)

lemma ljust_fits: "length s \<le> w \<Longrightarrow> length (ljust w s) = w"
  by (simp add: ljust_def)

lemma columns_of_line:
  assumes "length ts = 28" "length f1 = 8" "length f2 = 16" "length f3 = 8" "length f4 = 4"
  shows "take 8 (drop 31 (ts @ '' | '' @ f1 @ '' | '' @ f2 @ '' | '' @ f3 @ '' | '' @ f4 @ rest)) = f1"
    and "take 16 (drop 42 (ts @ '' | '' @ f1 @ '' | '' @ f2 @ '' | '' @ f3 @ '' | '' @ f4 @ rest)) = f2"
    and "take 8 (drop 61 (ts @ '' | '' @ f1 @ '' | '' @ f2 @ '' | '' @ f3 @ '' | '' @ f4 @ rest)) = f3"
    and "take 4 (drop 72 (ts @ '' | '' @ f1 @ '' | '' @ f2 @ '' | '' @ f3 @ '' | '' @ f4 @ rest)) = f4"
  using assms by simp_all


lemma timestamp_length:
  assumes "valid_time il" and "valid_time (created_local r)" and "msecs r < 1000"
  shows "length (formatTime (script_formatter il) r @ ''.'' @ zfill_int 3 (int (msecs r))
                   @ utc_offset_text (tm_gmtoff il)) = 28"
proof -
  from assms(2) have "1000 \<le> tm_year (created_local r)" "tm_year (created_local r) \<le> 9999"
    "tm_mon (created_local r) < 100" "tm_mday (created_local r) < 100"
    "tm_hour (created_local r) < 100" "tm_min (created_local r) < 100"
    "tm_sec (created_local r) < 100"
    by (simp_all add: valid_time_def)
  moreover from assms(1) have "\<bar>tm_gmtoff il\<bar> < 86400"
    by (simp add: valid_time_def)
  ultimately show ?thesis
    unfolding formatTime_script
    by (simp add: show_nat_4 two_digits_eq zfill_int_3 [OF assms(3)] utc_offset_text_eq)
qed

section \<open>Round trip through the fixed-width columns (C5)\<close>

text \<open>
  C5, as stated, holds for every record. A record of a call on line 12345 is rendered with
  a five-character line number; the four columns reserved for it hold \<open>1234\<close>, and reading
  the columns back yields line 1234, not 12345.
\<close>

theorem round_trip_counterexample:
  "Formatter_format (script_formatter example_time)
     (makeRecord (script_logger example_time) example_env ERROR 12345 ''Error message.'' None)
   = Inr ''2026-11-04T09:05:07.042+0100 | 4711     | 140234567890123  | ERROR    | 12345 | Error message.''
   \<and> parse_fixed_width
       ''2026-11-04T09:05:07.042+0100 | 4711     | 140234567890123  | ERROR    | 12345 | Error message.''
     = Some (4711, 140234567890123, ''ERROR'', 1234)
   \<and> parse_fixed_width
       ''2026-11-04T09:05:07.042+0100 | 4711     | 140234567890123  | ERROR    | 12345 | Error message.''
     \<noteq> Some
        (process (makeRecord (script_logger example_time) example_env ERROR 12345 ''Error message.'' None),
         thread (makeRecord (script_logger example_time) example_env ERROR 12345 ''Error message.'' None),
         levelname (makeRecord (script_logger example_time) example_env ERROR 12345 ''Error message.'' None),
         lineno (makeRecord (script_logger example_time) example_env ERROR 12345 ''Error message.'' None))"
  unfolding Formatter_format_script example_timestamp
  by (simp add: makeRecord_def example_env_def append_exc_text_def ljust_def
      replicate_numeral show_int_def show_nat_examples getLevelName_def ERROR_def CRITICAL_def
      parse_fixed_width_def rstrip_def read_int_def read_nat_def is_digit_def digit_val_def)

text \<open>
  C5, amended: for every record whose process id, thread id, level name and line number
  fit their columns (at most 8, 16, 8 and 4 characters, the level name without trailing
  blanks), with calendar times of a four-digit year and milliseconds below 1000, reading
  the fixed-width columns of the rendered line recovers the process id, thread id, level
  name and line number exactly.
\<close>

theorem round_trip_when_fields_fit:
  assumes "valid_time il" and "valid_time (created_local r)" and "msecs r < 1000"
    and "fits_columns r"
  shows "\<exists>line. Formatter_format (script_formatter il) r = Inr line
           \<and> parse_fixed_width line = Some (process r, thread r, levelname r, lineno r)"
proof -
  define ts where "ts = formatTime (script_formatter il) r @ ''.'' @ zfill_int 3 (int (msecs r))
                          @ utc_offset_text (tm_gmtoff il)"
  define f1 where "f1 = ljust 8 (show_int (process r))"
  define f2 where "f2 = ljust 16 (show_int (thread r))"
  define f3 where "f3 = ljust 8 (levelname r)"
  define f4 where "f4 = ljust 4 (show_int (lineno r))"
  obtain suffix where "append_exc_text
       (formatTime (script_formatter il) r @ ''.'' @ zfill_int 3 (int (msecs r))
               @ utc_offset_text (tm_gmtoff il)
               @ '' | '' @ ljust 8 (show_int (process r))
               @ '' | '' @ ljust 16 (show_int (thread r))
               @ '' | '' @ ljust 8 (levelname r)
               @ '' | '' @ ljust 4 (show_int (lineno r))
               @ '' | '' @ msg r) (exc_info r)
     = (formatTime (script_formatter il) r @ ''.'' @ zfill_int 3 (int (msecs r))
               @ utc_offset_text (tm_gmtoff il)
               @ '' | '' @ ljust 8 (show_int (process r))
               @ '' | '' @ ljust 16 (show_int (thread r))
               @ '' | '' @ ljust 8 (levelname r)
               @ '' | '' @ ljust 4 (show_int (lineno r))
               @ '' | '' @ msg r) @ suffix"
    using append_exc_text_prefix by blast
  then have line: "Formatter_format (script_formatter il) r =
      Inr (ts @ '' | '' @ f1 @ '' | '' @ f2 @ '' | '' @ f3 @ '' | '' @ f4
             @ ('' | '' @ msg r @ suffix))"
    unfolding Formatter_format_script ts_def f1_def f2_def f3_def f4_def by simp
  have len: "length ts = 28" "length f1 = 8" "length f2 = 16" "length f3 = 8" "length f4 = 4"
    using assms timestamp_length [OF assms(1-3)]
    by (simp_all add: ts_def f1_def f2_def f3_def f4_def fits_columns_def ljust_fits)
  have fields: "read_int (rstrip f1) = Some (process r)" "read_int (rstrip f2) = Some (thread r)"
    "rstrip f3 = levelname r" "read_int (rstrip f4) = Some (lineno r)"
    using assms(4)
    by (simp_all add: f1_def f2_def f3_def f4_def fits_columns_def rstrip_ljust rstrip_show_int
        read_int_show_int)
  have "parse_fixed_width (ts @ '' | '' @ f1 @ '' | '' @ f2 @ '' | '' @ f3 @ '' | '' @ f4
             @ ('' | '' @ msg r @ suffix)) = Some (process r, thread r, levelname r, lineno r)"
    unfolding parse_fixed_width_def columns_of_line [OF len] fields by simp
  with line show ?thesis by blast
qed

text \<open>An instance: the record of the script's call on line 31.\<close>

theorem round_trip_when_fields_fit_witness:
  "\<exists>line. Formatter_format (script_formatter example_time)
       (makeRecord (script_logger example_time) example_env WARNING 31 ''Warning message.'' None)
       = Inr line
     \<and> parse_fixed_width line = Some (4711, 140234567890123, ''WARNING'', 31)"
  using round_trip_when_fields_fit [of example_time
      "makeRecord (script_logger example_time) example_env WARNING 31 ''Warning message.'' None"]
  by (simp add: valid_time_def fits_columns_def makeRecord_def example_env_def example_time_def
      show_int_def show_nat_examples show_nat.simps [of "numeral k" for k] digit_char_def
      getLevelName_def WARNING_def ERROR_def CRITICAL_def rstrip_def)

section \<open>The timestamp (C4)\<close>









section \<open>Emitting through the script's logger\<close>

lemma script_renders:
  "Formatter_format (script_formatter il) r = Inr (projr (Formatter_format (script_formatter il) r))"
  by (simp add: Formatter_format_script)

lemma handler_emit_rendered:
  "Formatter_format (h_formatter h) r = Inr line \<Longrightarrow>
     handler_emit h r w = ([], stream_flush (h_stream h) (stream_write (h_stream h) (line @ [newline]) w))"
  by (simp add: handler_emit_def)

lemma script_handler_fields:
  "h_level (script_handler il) = DEBUG"
  "h_formatter (script_handler il) = script_formatter il"
  "h_stream (script_handler il) = Stderr"
  by (simp_all add: script_handler_def handler_setFormatter_def handler_setLevel_def
      StreamHandler_def)

lemma script_logger_fields:
  "lg_name (script_logger il) = LOGGER_NAME"
  "lg_level (script_logger il) = DEBUG"
  "lg_handlers (script_logger il) = [script_handler il]"
  by (simp_all add: script_logger_def addHandler_def setLevel_def getLogger_def)

lemma console_write_flush:
  "stream_flush Stderr (stream_write Stderr txt w) =
     w\<lparr>stderr_buffer := [], stderr_output := stderr_output w @ stderr_buffer w @ txt,
       write_calls := write_calls w @ [(Stderr, txt)]\<rparr>"
  by (simp add: stream_flush_def stream_write_def)

lemma handler_emit_script:
  "handler_emit (script_handler il) r w =
     ([], w\<lparr>stderr_buffer := [],
           stderr_output := stderr_output w @ stderr_buffer w
              @ projr (Formatter_format (script_formatter il) r) @ [newline],
           write_calls := write_calls w
              @ [(Stderr, projr (Formatter_format (script_formatter il) r) @ [newline])]\<rparr>)"
  using handler_emit_rendered [of "script_handler il" r _ w] script_renders [of il r]
  by (simp add: script_handler_fields console_write_flush)

lemma emit_script:
  "DEBUG \<le> level \<Longrightarrow>
   emit (script_logger il) env level ln mtext ei w =
     (Some (makeRecord (script_logger il) env level ln mtext ei), [],
      w\<lparr>stderr_buffer := [],
        stderr_output := stderr_output w @ stderr_buffer w
          @ projr (Formatter_format (script_formatter il)
                     (makeRecord (script_logger il) env level ln mtext ei)) @ [newline],
        write_calls := write_calls w
          @ [(Stderr, projr (Formatter_format (script_formatter il)
                     (makeRecord (script_logger il) env level ln mtext ei)) @ [newline])]\<rparr>)"
  by (simp add: emit_def script_logger_fields handler_emit_script script_handler_fields
      makeRecord_def)

lemma method_level_enabled: "DEBUG \<le> method_level m"
  by (cases m) (simp_all add: method_level_def DEBUG_def INFO_def WARNING_def ERROR_def
      CRITICAL_def)

lemma logger_call_script:
  "logger_call (script_logger il) env m ln mtext w =
     (Some (makeRecord (script_logger il) env (method_level m) ln mtext
              (if m = Exception then Some (exc_state w) else None)), [],
      w\<lparr>stderr_buffer := [],
        stderr_output := stderr_output w @ stderr_buffer w
          @ projr (Formatter_format (script_formatter il)
                     (makeRecord (script_logger il) env (method_level m) ln mtext
                        (if m = Exception then Some (exc_state w) else None))) @ [newline],
        write_calls := write_calls w
          @ [(Stderr, projr (Formatter_format (script_formatter il)
                     (makeRecord (script_logger il) env (method_level m) ln mtext
                        (if m = Exception then Some (exc_state w) else None))) @ [newline])]\<rparr>)"
  unfolding logger_call_def by (rule emit_script [OF method_level_enabled])

section \<open>Filtering by threshold (C1)\<close>

text \<open>
  C1: a call whose level is below the logger's threshold returns at once: no record is
  built, nothing is reported and the streams are untouched; a destination likewise
  ignores a record below its own threshold. In the script the logger's threshold and its
  only handler's threshold are both \<open>DEBUG\<close>, so a call is filtered out exactly when its
  level is below \<open>DEBUG\<close>, which none of the convenience methods is.
\<close>

theorem below_threshold_no_write:
  "(level < lg_level lg \<longrightarrow> emit lg env level ln mtext ei w = (None, [], w))
   \<and> (levelno r < h_level h \<longrightarrow> callHandlers [h] r w = ([], w))
   \<and> lg_level (script_logger il) = DEBUG
   \<and> map h_level (lg_handlers (script_logger il)) = [DEBUG]
   \<and> ((emit (script_logger il) env level ln mtext ei w = (None, [], w)) = (level < DEBUG))
   \<and> DEBUG \<le> method_level m"
proof -
  have "emit (script_logger il) env level ln mtext ei w \<noteq> (None, [], w)" if "DEBUG \<le> level"
    using emit_script [OF that, where il = il and env = env and ln = ln and mtext = mtext
        and ei = ei and w = w] by simp
  moreover have "emit (script_logger il) env level ln mtext ei w = (None, [], w)" if "level < DEBUG"
    using that by (simp add: emit_def script_logger_fields)
  ultimately have "(emit (script_logger il) env level ln mtext ei w = (None, [], w)) = (level < DEBUG)"
    by (cases "level < DEBUG") simp_all
  then show ?thesis
    by (simp add: emit_def script_logger_fields script_handler_fields method_level_enabled)
qed

text \<open>
  An instance: a call at level 5 on the script's logger, and an \<open>INFO\<close> record handed to a
  handler whose threshold is \<open>ERROR\<close>.
\<close>

theorem below_threshold_no_write_witness:
  "emit (script_logger example_time) example_env 5 29 ''Trace message.'' None example_world
     = (None, [], example_world)
   \<and> callHandlers [handler_setLevel (script_handler example_time) ERROR]
        (makeRecord (script_logger example_time) example_env INFO 30 ''Info message.'' None)
        example_world = ([], example_world)"
  using below_threshold_no_write [where level = 5 and lg = "script_logger example_time"
      and env = example_env and ln = 29 and mtext = "''Trace message.''" and ei = None
      and w = example_world
      and r = "makeRecord (script_logger example_time) example_env INFO 30 ''Info message.'' None"
      and h = "handler_setLevel (script_handler example_time) ERROR"]
  by (simp add: script_logger_fields DEBUG_def makeRecord_def handler_setLevel_def INFO_def
      ERROR_def)

section \<open>One write per destination (C2)\<close>









section \<open>The console sink (C6)\<close>

text \<open>
  C6: a handler created without a stream, as the script's is, targets standard error; for
  every record it appends the rendered line and a newline to standard error and flushes:
  after the call the buffer is empty and the output holds everything written so far.
  Standard output is left as it was.
\<close>

theorem console_sink_stderr_newline_flush:
  "h_stream (StreamHandler None) = Stderr
   \<and> h_stream (script_handler il) = Stderr
   \<and> (\<exists>line. Formatter_format (script_formatter il) r = Inr line
        \<and> handler_emit (script_handler il) r w =
            ([], w\<lparr>stderr_buffer := [],
                  stderr_output := stderr_output w @ stderr_buffer w @ line @ [newline],
                  write_calls := write_calls w @ [(Stderr, line @ [newline])]\<rparr>))"
  using script_renders [of il r]
  by (auto simp add: StreamHandler_def script_handler_fields handler_emit_script)

section \<open>Running the script\<close>

lemma run_script_result:
  "run_script il envs w =
    ([makeRecord (script_logger il) (envs 0) DEBUG 29 ''Debug message.'' None,
      makeRecord (script_logger il) (envs 1) INFO 30 ''Info message.'' None,
      makeRecord (script_logger il) (envs 2) WARNING 31 ''Warning message.'' None,
      makeRecord (script_logger il) (envs 3) ERROR 32 ''Error message.'' None,
      makeRecord (script_logger il) (envs 4) CRITICAL 33 ''Warning message.'' None,
      makeRecord (script_logger il) (envs 5) ERROR 34 ''Exception message.'' (Some (exc_state w))],
     [],
     w\<lparr>stderr_buffer := [],
       stderr_output := stderr_output w @ stderr_buffer w
         @ projr (Formatter_format (script_formatter il)
             (makeRecord (script_logger il) (envs 0) DEBUG 29 ''Debug message.'' None)) @ [newline]
         @ projr (Formatter_format (script_formatter il)
             (makeRecord (script_logger il) (envs 1) INFO 30 ''Info message.'' None)) @ [newline]
         @ projr (Formatter_format (script_formatter il)
             (makeRecord (script_logger il) (envs 2) WARNING 31 ''Warning message.'' None)) @ [newline]
         @ projr (Formatter_format (script_formatter il)
             (makeRecord (script_logger il) (envs 3) ERROR 32 ''Error message.'' None)) @ [newline]
         @ projr (Formatter_format (script_formatter il)
             (makeRecord (script_logger il) (envs 4) CRITICAL 33 ''Warning message.'' None)) @ [newline]
         @ projr (Formatter_format (script_formatter il)
             (makeRecord (script_logger il) (envs 5) ERROR 34 ''Exception message.''
                (Some (exc_state w)))) @ [newline],
       write_calls := write_calls w @
         [(Stderr, projr (Formatter_format (script_formatter il)
             (makeRecord (script_logger il) (envs 0) DEBUG 29 ''Debug message.'' None)) @ [newline]),
          (Stderr, projr (Formatter_format (script_formatter il)
             (makeRecord (script_logger il) (envs 1) INFO 30 ''Info message.'' None)) @ [newline]),
          (Stderr, projr (Formatter_format (script_formatter il)
             (makeRecord (script_logger il) (envs 2) WARNING 31 ''Warning message.'' None)) @ [newline]),
          (Stderr, projr (Formatter_format (script_formatter il)
             (makeRecord (script_logger il) (envs 3) ERROR 32 ''Error message.'' None)) @ [newline]),
          (Stderr, projr (Formatter_format (script_formatter il)
             (makeRecord (script_logger il) (envs 4) CRITICAL 33 ''Warning message.'' None)) @ [newline]),
          (Stderr, projr (Formatter_format (script_formatter il)
             (makeRecord (script_logger il) (envs 5) ERROR 34 ''Exception message.''
                (Some (exc_state w)))) @ [newline])]\<rparr>)"
  unfolding run_script_def sample_calls_def
  by (simp add: logger_call_script method_level_def eval_nat_numeral)

section \<open>The sample lines (C7)\<close>

text \<open>
  C7, as stated, says that every level receives exactly one sample line. The script makes
  six calls, and \<open>logger.exception\<close> on line 34 logs at \<open>ERROR\<close>, as \<open>logger.error\<close> on
  line 32 does: the level \<open>ERROR\<close> receives two lines.
\<close>

theorem one_line_per_level_counterexample:
  "count_list (map levelno (fst (run_script example_time example_envs example_world))) ERROR = 2
   \<and> count_list (map levelno (fst (run_script example_time example_envs example_world))) ERROR
       \<noteq> 1"
  unfolding run_script_result
  by (simp add: makeRecord_def levels_distinct)

text \<open>
  C7, amended: running the script builds six records, for the calls on lines 29 to 34, at
  the levels \<open>DEBUG\<close>, \<open>INFO\<close>, \<open>WARNING\<close>, \<open>ERROR\<close>, \<open>CRITICAL\<close> and \<open>ERROR\<close>, reports no
  failure and writes the six rendered records to standard error in this order. So
  \<open>DEBUG\<close>, \<open>INFO\<close>, \<open>WARNING\<close> and \<open>CRITICAL\<close> receive exactly one line each and \<open>ERROR\<close>
  receives two; no level receives none.
\<close>

theorem sample_lines_per_level:
  "(case run_script il envs w of
      (rs, errs, w') \<Rightarrow>
        map levelno rs = [DEBUG, INFO, WARNING, ERROR, CRITICAL, ERROR]
        \<and> map lineno rs = [29, 30, 31, 32, 33, 34]
        \<and> errs = []
        \<and> map (\<lambda>(s, t). (s, Inr (butlast t))) (drop (length (write_calls w)) (write_calls w'))
            = map (\<lambda>r. (Stderr, Formatter_format (script_formatter il) r)) rs
        \<and> count_list (map levelno rs) DEBUG = 1
        \<and> count_list (map levelno rs) INFO = 1
        \<and> count_list (map levelno rs) WARNING = 1
        \<and> count_list (map levelno rs) ERROR = 2
        \<and> count_list (map levelno rs) CRITICAL = 1)"
  unfolding run_script_result
  by (simp add: makeRecord_def levels_distinct script_renders [symmetric])

section \<open>The message of the \<open>CRITICAL\<close> sample (C9)\<close>

text \<open>
  C9: the fifth call, on line 33, logs at \<open>CRITICAL\<close> with the message text of the
  \<open>WARNING\<close> call on line 31, and the line written for it ends with the level \<open>CRITICAL\<close>,
  the line number 33 and the message \<open>Warning message.\<close>
\<close>

theorem critical_sample_reads_warning:
  "(case run_script il envs w of
      (rs, errs, w') \<Rightarrow>
        levelno (rs ! 2) = WARNING \<and> lineno (rs ! 2) = 31
        \<and> levelno (rs ! 4) = CRITICAL \<and> lineno (rs ! 4) = 33
        \<and> msg (rs ! 4) = ''Warning message.'' \<and> msg (rs ! 4) = msg (rs ! 2)
        \<and> write_calls w' ! (length (write_calls w) + 4) =
            (Stderr,
             formatTime (script_formatter il) (rs ! 4) @ ''.''
               @ zfill_int 3 (int (env_msecs (envs 4))) @ strftime ''%z'' il
               @ '' | '' @ ljust 8 (show_int (env_pid (envs 4)))
               @ '' | '' @ ljust 16 (show_int (env_tid (envs 4)))
               @ '' | CRITICAL | 33   | Warning message.'' @ [newline]))"
  unfolding run_script_result
  by (simp add: nth_append Formatter_format_script makeRecord_def append_exc_text_def
      getLevelName_def ljust_def show_int_def show_nat.simps [of "numeral k" for k]
      digit_char_def replicate_numeral strftime_directive_def formatTime_def)

section \<open>Exception-style emission (C8)\<close>

text \<open>
  C8: \<open>logger.exception\<close> on the script's logger builds an \<open>ERROR\<close> record that carries the
  failure being handled, and writes one line: the message rendered as for a plain call,
  followed by the failure text. The failure text holds the stack trace, when one is
  attached, then the type name and the description, and it follows the message text after
  a newline. The call reports no failure of its own and leaves the failure being handled
  as it found it.
\<close>

theorem exception_call_appends_failure:
  "(case logger_call (script_logger il) env Exception ln mtext w of
      (made, errs, w') \<Rightarrow>
        errs = [] \<and> exc_state w' = exc_state w
        \<and> (\<exists>r base. made = Some r \<and> levelno r = ERROR \<and> msg r = mtext
               \<and> exc_info r = Some (exc_state w)
               \<and> Formatter_format (script_formatter il) (r\<lparr>exc_info := None\<rparr>) = Inr base
               \<and> write_calls w' = write_calls w
                    @ [(Stderr, append_exc_text base (Some (exc_state w)) @ [newline])]))
   \<and> append_exc_text s (Some (Some (Failure ty (d # ds) (Some frames)))) =
       (if s \<noteq> [] \<and> last s = newline then s else s @ [newline])
         @ ''Traceback (most recent call last):'' @ [newline]
         @ concat (map (\<lambda>l. l @ [newline]) frames) @ ty @ '': '' @ d # ds
   \<and> append_exc_text s (Some (Some (Failure ty (d # ds) None))) =
       (if s \<noteq> [] \<and> last s = newline then s else s @ [newline]) @ ty @ '': '' @ d # ds"
  unfolding logger_call_script
  by (simp add: Formatter_format_script makeRecord_def method_level_def formatTime_def
      append_exc_text_def formatException_def)

text \<open>An example with a failure that carries a one-frame stack trace.\<close>

lemma exception_call_example:
  "(case logger_call (script_logger example_time) example_env Exception 34 ''Exception message.''
           (example_world\<lparr>exc_state :=
              Some (Failure ''ValueError'' ''bad input''
                      (Some [''  File scratch.py, line 34, in <module>'']))\<rparr>) of
      (made, errs, w') \<Rightarrow>
        errs = []
        \<and> exc_state w' = Some (Failure ''ValueError'' ''bad input''
                      (Some [''  File scratch.py, line 34, in <module>'']))
        \<and> write_calls w' =
            [(Stderr,
              ''2026-11-04T09:05:07.042+0100 | 4711     | 140234567890123  | ERROR    | 34   | Exception message.''
               @ [newline] @ ''Traceback (most recent call last):'' @ [newline]
               @ ''  File scratch.py, line 34, in <module>'' @ [newline]
               @ ''ValueError: bad input'' @ [newline])])"
  unfolding logger_call_script Formatter_format_script example_timestamp
  by (simp add: makeRecord_def method_level_def
      append_exc_text_def formatException_def example_world_def example_env_def
      getLevelName_def levels_distinct ljust_def show_int_def show_nat_examples
      show_nat.simps [of "numeral k" for k] digit_char_def replicate_numeral newline_def)

end
